theory Spec2Isabelle
  imports Main "HOL-Library.Extended_Nat"
begin

section \<open>The pattern tree\<close>

text \<open>
  The program (\<^verbatim>\<open>src/library/src/regex-parser.ts\<close>) works on the syntax tree that the
  regexpp library builds for a regular-expression literal. The tree is modelled as a
  datatype with one constructor per node type that the program dispatches on, plus
  \<open>OtherElement\<close> for every node type that falls into a \<^verbatim>\<open>default\<close> branch.

  Repetition counts are what the parser reads from decimal digits: \<open>min\<close> is a natural
  number, \<open>max\<close> a natural number or \<^verbatim>\<open>Infinity\<close> (\<open>\<infinity>\<close> of type \<open>enat\<close>). Requested
  lengths and candidate counts are natural numbers, as the interface asks for; the
  arithmetic of the program on them is exact for values below \<open>2^53\<close>.
  Code points are restricted to the 8-bit range of \<open>char\<close>.

  A \<open>Quantifier\<close> carries regexpp's \<open>start\<close> offset of the node in the source text. Two
  Quantifier nodes of one parsed tree never start at the same offset, so that equality of
  Quantifier values coincides with the object identity that the program's \<^verbatim>\<open>Map\<close> and
  \<^verbatim>\<open>includes\<close> compare by.
\<close>

abbreviation bs :: char where
  "bs \<equiv> CHR 0x5C"

abbreviation newline :: char where
  "newline \<equiv> CHR 0x0A"

abbreviation carriage_return :: char where
  "carriage_return \<equiv> CHR 0x0D"

abbreviation tab :: char where
  "tab \<equiv> CHR 0x09"

datatype CharacterSetKind = AnyKind | DigitKind | SpaceKind | WordKind | PropertyKind

datatype ClassElement =
    ClassCharacter char
  | ClassRange char char
  | ClassSet CharacterSetKind bool
  | ClassOther

datatype AssertionKind = StartKind | EndKind | WordBoundaryKind | LookaheadKind | LookbehindKind

datatype BackRef = RefNumber nat | RefName string

datatype Element =
    Character char
  | CharacterClass bool "ClassElement list"
  | CharacterSet CharacterSetKind bool
  | Quantifier (qstart: nat) (qmin: nat) (qmax: enat) (greedy: bool) (qelement: Element)
  | CapturingGroup "string option" "Element list list"
  | Group "Element list list"
  | Assertion AssertionKind bool "Element list list"
  | Backreference BackRef
  | OtherElement

text \<open>An \<open>Alternative\<close> node has its \<open>elements\<close> only: it is the list of them.\<close>

type_synonym Alternative = "Element list"

datatype Pattern = Pattern (alternatives: "Alternative list")

record RegExpLiteral =
  lit_pattern :: Pattern
  lit_flags :: string

text \<open>
  \<^verbatim>\<open>parseRegExpLiteral\<close> belongs to the regexpp library, not to this program: every
  function that parses takes it as the parameter \<open>lit\<close>. \<open>None\<close> is a syntax error.
\<close>

type_synonym LiteralParser = "string \<Rightarrow> RegExpLiteral option"

record ParsedRegex =
  pattern :: Pattern
  flags :: string
  source :: string

record RegexLengthEstimate =
  min_est :: nat
  max_est :: "nat option"

text \<open>A candidate \<^verbatim>\<open>{ regex, minLength, maxLength }\<close>.\<close>

record Candidate =
  cand_regex :: string
  cand_minLength :: nat
  cand_maxLength :: "nat option"

record RegexTransformResult =
  transformed :: string
  actualMinLength :: nat
  actualMaxLength :: "nat option"
  isExact :: bool
  candidates :: "Candidate list option"
  warning :: "string option"

record MinMaxOptions =
  preferLazy :: "bool option"
  generateCandidates :: "bool option"
  candidateCount :: "nat option"

text \<open>The argument \<^verbatim>\<open>regex: string | RegExp\<close>: a RegExp object has a source and flags.\<close>

datatype RegexInput = RegExpObject string string | RegexString string


section \<open>Parser wrapper\<close>

definition startsWithSlash :: "string \<Rightarrow> bool" where
  "startsWithSlash s = (case s of [] \<Rightarrow> False | c # _ \<Rightarrow> c = CHR ''/'')"

text \<open>\<^verbatim>\<open>s.lastIndexOf('/')\<close>, used only on strings that start with a slash.\<close>

definition lastIndexOfSlash :: "string \<Rightarrow> nat" where
  "lastIndexOfSlash s = length s - Suc (length (takeWhile (\<lambda>c. c \<noteq> CHR ''/'') (rev s)))"

text \<open>\<^verbatim>\<open>s.slice(1, e)\<close>; it is empty when \<open>e \<le> 1\<close>.\<close>

definition sliceFrom1 :: "string \<Rightarrow> nat \<Rightarrow> string" where
  "sliceFrom1 s e = take (e - 1) (drop 1 s)"

definition literalSource :: "RegexInput \<Rightarrow> string" where
  "literalSource r =
     (case r of
        RegExpObject src fl \<Rightarrow> ''/'' @ src @ ''/'' @ fl
      | RegexString s \<Rightarrow> if startsWithSlash s then s else ''/'' @ s @ ''/'')"

text \<open>The \<open>source\<close> field of the result of \<^verbatim>\<open>parseRegex\<close>.\<close>

definition sourceText :: "RegexInput \<Rightarrow> string" where
  "sourceText r =
     (case r of
        RegExpObject src fl \<Rightarrow> src
      | RegexString s \<Rightarrow> if startsWithSlash s then sliceFrom1 s (lastIndexOfSlash s) else s)"

text \<open>\<open>None\<close> is the error thrown when the literal does not parse.\<close>

definition parseRegex :: "LiteralParser \<Rightarrow> RegexInput \<Rightarrow> ParsedRegex option" where
  "parseRegex lit r =
     (case lit (literalSource r) of
        None \<Rightarrow> None
      | Some ast \<Rightarrow>
          Some \<lparr>pattern = lit_pattern ast, flags = lit_flags ast, source = sourceText r\<rparr>)"


section \<open>Length estimator\<close>

text \<open>
  The loop of \<^verbatim>\<open>visitSequence\<close> over the estimates of the elements: the state is
  \<open>(totalMin, totalMax)\<close>, \<open>None\<close> is \<^verbatim>\<open>null\<close>.
\<close>

definition sequenceStep :: "nat \<times> nat option \<Rightarrow> RegexLengthEstimate \<Rightarrow> nat \<times> nat option" where
  "sequenceStep acc result =
     (case acc of (totalMin, totalMax) \<Rightarrow>
        (totalMin + min_est result,
         (case max_est result of
            None \<Rightarrow> None
          | Some m \<Rightarrow> (case totalMax of None \<Rightarrow> None | Some t \<Rightarrow> Some (t + m)))))"

definition sequenceBound :: "RegexLengthEstimate list \<Rightarrow> RegexLengthEstimate" where
  "sequenceBound results =
     (case foldl sequenceStep (0, Some 0) results of
        (totalMin, totalMax) \<Rightarrow> \<lparr>min_est = totalMin, max_est = totalMax\<rparr>)"

text \<open>
  The loop of \<^verbatim>\<open>visitAlternatives\<close>: the state is \<open>(overallMin, overallMax)\<close>, starting
  from \<^verbatim>\<open>(Infinity, 0)\<close>.
\<close>

definition alternativesStep :: "enat \<times> nat option \<Rightarrow> RegexLengthEstimate \<Rightarrow> enat \<times> nat option" where
  "alternativesStep acc result =
     (case acc of (overallMin, overallMax) \<Rightarrow>
        (min overallMin (enat (min_est result)),
         (case max_est result of
            None \<Rightarrow> None
          | Some m \<Rightarrow> (case overallMax of None \<Rightarrow> None | Some t \<Rightarrow> Some (max t m)))))"

definition alternativesBound :: "RegexLengthEstimate list \<Rightarrow> RegexLengthEstimate" where
  "alternativesBound results =
     (if length results = 0 then \<lparr>min_est = 0, max_est = Some 0\<rparr>
      else (case foldl alternativesStep (\<infinity>, Some 0) results of
              (overallMin, overallMax) \<Rightarrow>
                \<lparr>min_est = (case overallMin of enat n \<Rightarrow> n | \<infinity> \<Rightarrow> 0),
                 max_est = overallMax\<rparr>))"

fun visitNode :: "Element \<Rightarrow> RegexLengthEstimate" where
  "visitNode (Character c) = \<lparr>min_est = 1, max_est = Some 1\<rparr>"
| "visitNode (CharacterSet k n) = \<lparr>min_est = 1, max_est = Some 1\<rparr>"
| "visitNode (CharacterClass n es) = \<lparr>min_est = 1, max_est = Some 1\<rparr>"
| "visitNode (Quantifier s qmn qmx g e) =
     (let elementResult = visitNode e;
          mn = qmn * min_est elementResult
      in (case qmx of
            \<infinity> \<Rightarrow> \<lparr>min_est = mn, max_est = None\<rparr>
          | enat k \<Rightarrow>
              (case max_est elementResult of
                 None \<Rightarrow> \<lparr>min_est = mn, max_est = None\<rparr>
               | Some x \<Rightarrow> \<lparr>min_est = mn, max_est = Some (k * x)\<rparr>)))"
| "visitNode (Group alts) =
     (if length alts > 0
      then alternativesBound (map (\<lambda>alt. sequenceBound (map visitNode alt)) alts)
      else \<lparr>min_est = 0, max_est = Some 0\<rparr>)"
| "visitNode (CapturingGroup nm alts) =
     (if length alts > 0
      then alternativesBound (map (\<lambda>alt. sequenceBound (map visitNode alt)) alts)
      else \<lparr>min_est = 0, max_est = Some 0\<rparr>)"
| "visitNode (Assertion k n alts) = \<lparr>min_est = 0, max_est = Some 0\<rparr>"
| "visitNode (Backreference r) = \<lparr>min_est = 0, max_est = None\<rparr>"
| "visitNode OtherElement = \<lparr>min_est = 0, max_est = Some 0\<rparr>"

definition visitSequence :: "Element list \<Rightarrow> RegexLengthEstimate" where
  "visitSequence elements = sequenceBound (map visitNode elements)"

definition visitAlternatives :: "Alternative list \<Rightarrow> RegexLengthEstimate" where
  "visitAlternatives alts = alternativesBound (map visitSequence alts)"

text \<open>\<^verbatim>\<open>estimate\<close> on a \<open>Pattern\<close> node; on an element it is \<open>visitNode\<close>.\<close>

definition estimate :: "Pattern \<Rightarrow> RegexLengthEstimate" where
  "estimate p = visitAlternatives (alternatives p)"




section \<open>Serialising the tree\<close>

text \<open>
  \<^verbatim>\<open>MinMaxTransformer\<close> and \<^verbatim>\<open>ConfigurableTransformer\<close> repeat the same private methods
  word for word, apart from \<^verbatim>\<open>transformQuantifier\<close>; the shared ones are defined once.
\<close>

text \<open>The decimal text of a number, as a template literal prints it.\<close>

definition digitChar :: "nat \<Rightarrow> char" where
  "digitChar d = ''0123456789'' ! d"

function showNat :: "nat \<Rightarrow> string" where
  "showNat n = (if n < 10 then [digitChar n] else showNat (n div 10) @ [digitChar (n mod 10)])"
  by pat_completeness auto
termination
  by (relation "measure (\<lambda>n. n)") auto

declare showNat.simps [simp del]

fun join :: "string \<Rightarrow> string list \<Rightarrow> string" where
  "join sep [] = []"
| "join sep [x] = x"
| "join sep (x # y # ys) = x @ sep @ join sep (y # ys)"

definition escapeChar :: "char \<Rightarrow> string" where
  "escapeChar c =
     (if c \<in> set [bs, CHR ''^'', CHR ''$'', CHR ''.'', CHR ''*'', CHR ''+'', CHR ''?'',
                   CHR ''('', CHR '')'', CHR ''['', CHR '']'', CHR ''{'', CHR ''}'', CHR ''|'']
      then [bs, c]
      else if c = newline then [bs, CHR ''n'']
      else if c = carriage_return then [bs, CHR ''r'']
      else if c = tab then [bs, CHR ''t'']
      else [c])"

text \<open>\<^verbatim>\<open>transformCharacterSet\<close> reads the \<open>kind\<close> of the node and nothing else.\<close>

definition transformCharacterSet :: "CharacterSetKind \<Rightarrow> bool \<Rightarrow> string" where
  "transformCharacterSet kind negate =
     (if kind = AnyKind then ''.''
      else if kind = DigitKind then [bs, CHR ''d'']
      else if kind = WordKind then [bs, CHR ''w'']
      else if kind = SpaceKind then [bs, CHR ''s'']
      else [])"

text \<open>One round of the loop of \<^verbatim>\<open>transformCharacterClass\<close> over the elements of the class.\<close>

definition classStep :: "string \<Rightarrow> ClassElement \<Rightarrow> string" where
  "classStep result elem =
     (case elem of
        ClassCharacter c \<Rightarrow>
          (if c = CHR '']'' \<or> c = bs then result @ [bs, c]
           else if c = CHR ''^'' \<and> result = ''['' then result @ [bs, CHR ''^'']
           else if c = CHR ''-'' \<and> length result > 1 \<and> last result \<noteq> CHR ''[''
             then result @ [bs, CHR ''-'']
           else result @ [c])
      | ClassRange fromChar toChar \<Rightarrow> result @ [fromChar] @ ''-'' @ [toChar]
      | ClassSet kind negate \<Rightarrow> result @ transformCharacterSet kind negate
      | ClassOther \<Rightarrow> result)"

definition transformCharacterClass :: "bool \<Rightarrow> ClassElement list \<Rightarrow> string" where
  "transformCharacterClass negate elems =
     foldl classStep (''['' @ (if negate then ''^'' else [])) elems @ '']''"

text \<open>
  \<^verbatim>\<open>transformAlternatives\<close>, given the text of each alternative
  (\<^verbatim>\<open>transformAlternative\<close> is the concatenation of the texts of its elements).
\<close>

definition joinAlternatives :: "string list \<Rightarrow> string" where
  "joinAlternatives texts =
     (case texts of
        [] \<Rightarrow> []
      | [t] \<Rightarrow> t
      | _ \<Rightarrow> join ''|'' texts)"

definition transformCapturingGroup :: "string option \<Rightarrow> string \<Rightarrow> string" where
  "transformCapturingGroup name content =
     (case name of
        None \<Rightarrow> ''('' @ content @ '')''
      | Some n \<Rightarrow> if n = [] then ''('' @ content @ '')'' else ''(?<'' @ n @ ''>'' @ content @ '')'')"

definition transformGroup :: "string \<Rightarrow> string" where
  "transformGroup content = ''(?:'' @ content @ '')''"

text \<open>
  \<^verbatim>\<open>transformAssertion\<close>, given the text of the alternatives of the node (read for the
  lookarounds only).
\<close>

definition transformAssertion :: "AssertionKind \<Rightarrow> bool \<Rightarrow> string \<Rightarrow> string" where
  "transformAssertion kind negate content =
     (if kind = StartKind then ''^''
      else if kind = EndKind then ''$''
      else if kind = WordBoundaryKind then [bs, CHR ''b'']
      else if kind = LookaheadKind
        then (if negate then ''(?!'' @ content @ '')'' else ''(?='' @ content @ '')'')
      else if kind = LookbehindKind
        then (if negate then ''(?<!'' @ content @ '')'' else ''(?<='' @ content @ '')'')
      else [])"

definition transformBackreference :: "BackRef \<Rightarrow> string" where
  "transformBackreference r =
     (case r of
        RefNumber n \<Rightarrow> [bs] @ showNat n
      | RefName name \<Rightarrow> [bs] @ ''k<'' @ name @ ''>'')"

text \<open>
  The chain of tests under \<^verbatim>\<open>// Build the quantifier\<close>, the same in both
  \<^verbatim>\<open>transformQuantifier\<close> methods: \<open>element\<close> is the text of the repeated element,
  \<open>lazy\<close> is \<open>''?''\<close> or empty.
\<close>

definition buildQuantifier :: "string \<Rightarrow> nat \<Rightarrow> enat \<Rightarrow> string \<Rightarrow> string" where
  "buildQuantifier element mn mx lazy =
     (if mn = 0 \<and> mx = enat 1 then element @ ''?'' @ lazy
      else if mn = 0 \<and> mx = \<infinity> then element @ ''*'' @ lazy
      else if mn = 1 \<and> mx = \<infinity> then element @ ''+'' @ lazy
      else if enat mn = mx then element @ ''{'' @ showNat mn @ ''}''
      else if mx = \<infinity> then element @ ''{'' @ showNat mn @ '',}'' @ lazy
      else element @ ''{'' @ showNat mn @ '','' @ showNat (the_enat mx) @ ''}'' @ lazy)"

subsection \<open>MinMaxTransformer\<close>

text \<open>
  The fields of the class are the parameters \<open>minTarget\<close>, \<open>maxTarget\<close> (possibly
  \<^verbatim>\<open>Infinity\<close>) and \<open>lazyPref\<close> (\<^verbatim>\<open>options.preferLazy\<close>, \<open>None\<close> when absent).
\<close>

fun mmTransformElement :: "nat \<Rightarrow> enat \<Rightarrow> bool option \<Rightarrow> Element \<Rightarrow> string" where
  "mmTransformElement minTarget maxTarget lazyPref (Character c) = escapeChar c"
| "mmTransformElement minTarget maxTarget lazyPref (CharacterClass negate elems) =
     transformCharacterClass negate elems"
| "mmTransformElement minTarget maxTarget lazyPref (CharacterSet kind negate) =
     transformCharacterSet kind negate"
| "mmTransformElement minTarget maxTarget lazyPref (Quantifier s qmn qmx g e) =
     (let element = mmTransformElement minTarget maxTarget lazyPref e;
          mx = (if qmx = \<infinity> then maxTarget else min qmx maxTarget);
          mn = max 0 (min qmn minTarget);
          lazy = (if lazyPref = Some True \<or> \<not> g then ''?'' else [])
      in buildQuantifier element mn mx lazy)"
| "mmTransformElement minTarget maxTarget lazyPref (CapturingGroup name alts) =
     transformCapturingGroup name
       (joinAlternatives
          (map (\<lambda>alt. concat (map (mmTransformElement minTarget maxTarget lazyPref) alt)) alts))"
| "mmTransformElement minTarget maxTarget lazyPref (Group alts) =
     transformGroup
       (joinAlternatives
          (map (\<lambda>alt. concat (map (mmTransformElement minTarget maxTarget lazyPref) alt)) alts))"
| "mmTransformElement minTarget maxTarget lazyPref (Assertion kind negate alts) =
     transformAssertion kind negate
       (joinAlternatives
          (map (\<lambda>alt. concat (map (mmTransformElement minTarget maxTarget lazyPref) alt)) alts))"
| "mmTransformElement minTarget maxTarget lazyPref (Backreference r) = transformBackreference r"
| "mmTransformElement minTarget maxTarget lazyPref OtherElement = []"

definition mmTransformAlternative :: "nat \<Rightarrow> enat \<Rightarrow> bool option \<Rightarrow> Alternative \<Rightarrow> string" where
  "mmTransformAlternative minTarget maxTarget lazyPref alt =
     concat (map (mmTransformElement minTarget maxTarget lazyPref) alt)"

definition mmTransformAlternatives :: "nat \<Rightarrow> enat \<Rightarrow> bool option \<Rightarrow> Alternative list \<Rightarrow> string" where
  "mmTransformAlternatives minTarget maxTarget lazyPref alts =
     joinAlternatives (map (mmTransformAlternative minTarget maxTarget lazyPref) alts)"

definition mmTransformPattern :: "nat \<Rightarrow> enat \<Rightarrow> bool option \<Rightarrow> Pattern \<Rightarrow> string" where
  "mmTransformPattern minTarget maxTarget lazyPref p =
     mmTransformAlternatives minTarget maxTarget lazyPref (alternatives p)"

text \<open>
  \<^verbatim>\<open>transform(pattern, flags)\<close> parses its argument again; \<open>fl\<close> is \<open>None\<close> for
  \<^verbatim>\<open>undefined\<close>, and an empty string is falsy as well.
\<close>

definition mmTransform ::
  "LiteralParser \<Rightarrow> nat \<Rightarrow> enat \<Rightarrow> bool option \<Rightarrow> string \<Rightarrow> string option \<Rightarrow> string option" where
  "mmTransform lit minTarget maxTarget lazyPref pat fl =
     (case parseRegex lit
             (RegexString (case fl of
                             None \<Rightarrow> pat
                           | Some f \<Rightarrow> if f = [] then pat else ''/'' @ pat @ ''/'' @ f)) of
        None \<Rightarrow> None
      | Some parsed \<Rightarrow> Some (mmTransformPattern minTarget maxTarget lazyPref (pattern parsed)))"

subsection \<open>ConfigurableTransformer\<close>

text \<open>
  A quantifier configuration is the \<^verbatim>\<open>Map\<close> from Quantifier nodes to their new counts.
\<close>

type_synonym QuantifierConfig = "Element \<Rightarrow> (nat \<times> enat) option"

fun cfgTransformElement :: "QuantifierConfig \<Rightarrow> Element \<Rightarrow> string" where
  "cfgTransformElement quantifierConfig (Character c) = escapeChar c"
| "cfgTransformElement quantifierConfig (CharacterClass negate elems) =
     transformCharacterClass negate elems"
| "cfgTransformElement quantifierConfig (CharacterSet kind negate) =
     transformCharacterSet kind negate"
| "cfgTransformElement quantifierConfig (Quantifier s qmn qmx g e) =
     (let element = cfgTransformElement quantifierConfig e;
          config = quantifierConfig (Quantifier s qmn qmx g e);
          mn = (case config of Some c \<Rightarrow> fst c | None \<Rightarrow> qmn);
          mx = (case config of Some c \<Rightarrow> snd c | None \<Rightarrow> qmx);
          lazy = (if \<not> g then ''?'' else [])
      in buildQuantifier element mn mx lazy)"
| "cfgTransformElement quantifierConfig (CapturingGroup name alts) =
     transformCapturingGroup name
       (joinAlternatives (map (\<lambda>alt. concat (map (cfgTransformElement quantifierConfig) alt)) alts))"
| "cfgTransformElement quantifierConfig (Group alts) =
     transformGroup
       (joinAlternatives (map (\<lambda>alt. concat (map (cfgTransformElement quantifierConfig) alt)) alts))"
| "cfgTransformElement quantifierConfig (Assertion kind negate alts) =
     transformAssertion kind negate
       (joinAlternatives (map (\<lambda>alt. concat (map (cfgTransformElement quantifierConfig) alt)) alts))"
| "cfgTransformElement quantifierConfig (Backreference r) = transformBackreference r"
| "cfgTransformElement quantifierConfig OtherElement = []"

definition cfgTransformAlternative :: "QuantifierConfig \<Rightarrow> Alternative \<Rightarrow> string" where
  "cfgTransformAlternative quantifierConfig alt =
     concat (map (cfgTransformElement quantifierConfig) alt)"

definition cfgTransformAlternatives :: "QuantifierConfig \<Rightarrow> Alternative list \<Rightarrow> string" where
  "cfgTransformAlternatives quantifierConfig alts =
     joinAlternatives (map (cfgTransformAlternative quantifierConfig) alts)"

definition cfgTransform :: "QuantifierConfig \<Rightarrow> Pattern \<Rightarrow> string" where
  "cfgTransform quantifierConfig p = cfgTransformAlternatives quantifierConfig (alternatives p)"


section \<open>Candidate generator\<close>

text \<open>
  The constructor of \<^verbatim>\<open>RegexCandidateGenerator\<close> keeps the parsed input. When parsing
  fails it keeps an empty object in place of the pattern (\<open>None\<close> here) and the raw text.
\<close>

record GeneratorParsed =
  gen_pattern :: "Pattern option"
  gen_source :: string

definition newGenerator :: "LiteralParser \<Rightarrow> RegexInput \<Rightarrow> GeneratorParsed" where
  "newGenerator lit regex =
     (case parseRegex lit regex of
        Some parsed \<Rightarrow> \<lparr>gen_pattern = Some (pattern parsed), gen_source = source parsed\<rparr>
      | None \<Rightarrow>
          \<lparr>gen_pattern = None,
           gen_source = (case regex of RegexString s \<Rightarrow> s | RegExpObject src fl \<Rightarrow> src)\<rparr>)"

text \<open>The closure \<open>visitor\<close> of \<^verbatim>\<open>findQuantifiers\<close>: it does not look into assertions.\<close>

fun visitor :: "Element \<Rightarrow> Element list" where
  "visitor (Quantifier s qmn qmx g e) = Quantifier s qmn qmx g e # visitor e"
| "visitor (Group alts) = concat (map (\<lambda>alt. concat (map visitor alt)) alts)"
| "visitor (CapturingGroup name alts) = concat (map (\<lambda>alt. concat (map visitor alt)) alts)"
| "visitor (Character c) = []"
| "visitor (CharacterClass negate elems) = []"
| "visitor (CharacterSet kind negate) = []"
| "visitor (Assertion kind negate alts) = []"
| "visitor (Backreference r) = []"
| "visitor OtherElement = []"

definition findQuantifiers :: "Pattern \<Rightarrow> Element list" where
  "findQuantifiers p = concat (map (\<lambda>alt. concat (map visitor alt)) (alternatives p))"

definition applyQuantifierConfiguration :: "Pattern \<Rightarrow> QuantifierConfig \<Rightarrow> string" where
  "applyQuantifierConfiguration p config = cfgTransform config p"

text \<open>The filter that selects the quantifiers that can grow.\<close>

definition isGrowable :: "Element \<Rightarrow> bool" where
  "isGrowable q = (enat (qmin q) < (if qmax q = \<infinity> then enat 1000 else qmax q) \<or> qmin q = 0)"

text \<open>\<^verbatim>\<open>for (const q of quantifiers) config.set(q, entry(q))\<close> on a new \<^verbatim>\<open>Map\<close>.\<close>

definition setAll :: "(Element \<Rightarrow> nat \<times> enat) \<Rightarrow> Element list \<Rightarrow> QuantifierConfig" where
  "setAll entry quantifiers = foldl (\<lambda>config q. config(q \<mapsto> entry q)) Map.empty quantifiers"

definition unchangedEntry :: "Element \<Rightarrow> nat \<times> enat" where
  "unchangedEntry q = (qmin q, if qmax q = \<infinity> then enat (qmin q) else qmax q)"

text \<open>\<^verbatim>\<open>estimator.estimate(q.element).min || 1\<close>\<close>

definition elemLengthOf :: "Element \<Rightarrow> nat" where
  "elemLengthOf q = (let m = min_est (visitNode (qelement q)) in if m = 0 then 1 else m)"

text \<open>The entry of one quantifier in the configuration built for a target length.\<close>

definition targetEntry :: "Element list \<Rightarrow> nat \<Rightarrow> Element \<Rightarrow> nat \<times> enat" where
  "targetEntry growableQuantifiers targetLength q =
     (let elemLength = elemLengthOf q
      in if q \<in> set growableQuantifiers
         then (let repsNeeded = targetLength div length growableQuantifiers div elemLength;
                   finalValue = max (qmin q)
                                  (min repsNeeded
                                     (if qmax q = \<infinity> then targetLength else the_enat (qmax q)))
               in (finalValue, enat finalValue))
         else unchangedEntry q)"

text \<open>The entry of one quantifier in the configuration forced when no target survived.\<close>

definition fallbackEntry :: "nat \<Rightarrow> Element \<Rightarrow> nat \<times> enat" where
  "fallbackEntry minLength q =
     (let elemLength = elemLengthOf q;
          repsNeeded = minLength div elemLength;
          finalValue = max (qmin q)
                         (min repsNeeded
                            (if qmax q = \<infinity> then minLength else the_enat (qmax q)))
      in (finalValue, enat finalValue))"

text \<open>\<^verbatim>\<open>.filter((v, i, arr) => arr.indexOf(v) === i)\<close> keeps the first of equal values.\<close>

fun dedupe :: "nat list \<Rightarrow> nat list" where
  "dedupe [] = []"
| "dedupe (v # vs) = v # dedupe (filter (\<lambda>w. w \<noteq> v) vs)"

text \<open>
  The target lengths. \<open>range\<close> is negative when \<open>maxLength < minLength\<close>, so it is an
  integer; in the last branch it exceeds 20 and the floors are those of
  \<open>range * 0.25\<close>, \<open>range * 0.5\<close> and \<open>range * 0.75\<close> added to \<open>minLength\<close>.
\<close>

definition targetValues :: "nat \<Rightarrow> nat \<Rightarrow> nat list" where
  "targetValues minLength maxLength =
     (let range = int maxLength - int minLength
      in if range = 0 then [minLength]
         else if range \<le> 20
           then dedupe [minLength, (minLength + maxLength) div 2, maxLength]
         else dedupe [minLength,
                      minLength + nat (range div 4),
                      minLength + nat (range div 2),
                      minLength + nat ((3 * range) div 4),
                      maxLength])"

text \<open>
  The loop over the target lengths; \<open>configurations\<close> is the list built so far. A
  configuration whose text does not parse is skipped.
\<close>

fun targetLoop ::
  "LiteralParser \<Rightarrow> Pattern \<Rightarrow> Element list \<Rightarrow> Element list \<Rightarrow> nat \<Rightarrow> nat \<Rightarrow> nat \<Rightarrow>
   nat list \<Rightarrow> QuantifierConfig list \<Rightarrow> QuantifierConfig list" where
  "targetLoop lit p quantifiers growableQuantifiers minLength maxLength count [] configurations =
     configurations"
| "targetLoop lit p quantifiers growableQuantifiers minLength maxLength count
     (targetLength # rest) configurations =
     (if length configurations \<ge> count then configurations
      else
        (let config = setAll (targetEntry growableQuantifiers targetLength) quantifiers;
             testRegex = applyQuantifierConfiguration p config
         in case parseRegex lit (RegexString testRegex) of
              None \<Rightarrow>
                targetLoop lit p quantifiers growableQuantifiers minLength maxLength count
                  rest configurations
            | Some testParsed \<Rightarrow>
                (let testEstimate = estimate (pattern testParsed)
                 in if min_est testEstimate \<ge> minLength \<and> min_est testEstimate \<le> maxLength
                    then targetLoop lit p quantifiers growableQuantifiers minLength maxLength count
                           rest (configurations @ [config])
                    else targetLoop lit p quantifiers growableQuantifiers minLength maxLength count
                           rest configurations)))"

definition generateQuantifierConfigurations ::
  "LiteralParser \<Rightarrow> Pattern \<Rightarrow> Element list \<Rightarrow> nat \<Rightarrow> nat \<Rightarrow> nat \<Rightarrow> QuantifierConfig list" where
  "generateQuantifierConfigurations lit p quantifiers minLength maxLength count =
     (let growableQuantifiers = filter isGrowable quantifiers
      in if length growableQuantifiers = 0 then [setAll unchangedEntry quantifiers]
         else
           (let configurations =
                  targetLoop lit p quantifiers growableQuantifiers minLength maxLength count
                    (targetValues minLength maxLength) [];
                configurations' =
                  (if length configurations = 0
                   then configurations @ [setAll (fallbackEntry minLength) quantifiers]
                   else configurations)
            in take count configurations'))"

text \<open>
  The loop of \<^verbatim>\<open>generate\<close> over the configurations: one candidate for each configuration
  whose text parses.
\<close>

fun collectCandidates :: "LiteralParser \<Rightarrow> Pattern \<Rightarrow> QuantifierConfig list \<Rightarrow> Candidate list" where
  "collectCandidates lit p [] = []"
| "collectCandidates lit p (config # rest) =
     (let transformedRegex = applyQuantifierConfiguration p config
      in case parseRegex lit (RegexString transformedRegex) of
           None \<Rightarrow> collectCandidates lit p rest
         | Some parsed \<Rightarrow>
             (let est = estimate (pattern parsed)
              in \<lparr>cand_regex = transformedRegex,
                  cand_minLength = min_est est,
                  cand_maxLength = max_est est\<rparr> # collectCandidates lit p rest))"

text \<open>
  \<^verbatim>\<open>new RegexCandidateGenerator(regex).generate(minLength, maxLength, count)\<close>. On the
  empty object that stands for an unparsed pattern no quantifier is found and the
  estimate is \<open>(0, 0)\<close>.
\<close>

definition generate :: "LiteralParser \<Rightarrow> RegexInput \<Rightarrow> nat \<Rightarrow> nat \<Rightarrow> nat \<Rightarrow> Candidate list" where
  "generate lit regex minLength maxLength count =
     (let parsed = newGenerator lit regex
      in case gen_pattern parsed of
           None \<Rightarrow> [\<lparr>cand_regex = gen_source parsed, cand_minLength = 0, cand_maxLength = Some 0\<rparr>]
         | Some p \<Rightarrow>
             (let quantifiers = findQuantifiers p
              in if length quantifiers = 0
                 then (let est = estimate p
                       in [\<lparr>cand_regex = gen_source parsed,
                            cand_minLength = min_est est,
                            cand_maxLength = max_est est\<rparr>])
                 else (let configurations =
                             generateQuantifierConfigurations lit p quantifiers
                               minLength maxLength count
                       in take count (collectCandidates lit p configurations))))"


section \<open>Public API\<close>

text \<open>\<^verbatim>\<open>regex.toString()\<close>\<close>

definition inputToString :: "RegexInput \<Rightarrow> string" where
  "inputToString regex =
     (case regex of RegExpObject src fl \<Rightarrow> ''/'' @ src @ ''/'' @ fl | RegexString s \<Rightarrow> s)"

text \<open>\<^verbatim>\<open>regex instanceof RegExp ? regex.source : regex\<close>\<close>

definition inputSource :: "RegexInput \<Rightarrow> string" where
  "inputSource regex = (case regex of RegExpObject src fl \<Rightarrow> src | RegexString s \<Rightarrow> s)"

text \<open>\<^verbatim>\<open>regex instanceof RegExp ? regex.flags : undefined\<close>\<close>

definition inputFlags :: "RegexInput \<Rightarrow> string option" where
  "inputFlags regex = (case regex of RegExpObject src fl \<Rightarrow> Some fl | RegexString s \<Rightarrow> None)"

text \<open>\<^verbatim>\<open>options.candidateCount || 5\<close>\<close>

definition countOrDefault :: "nat option \<Rightarrow> nat" where
  "countOrDefault c = (case c of None \<Rightarrow> 5 | Some n \<Rightarrow> if n = 0 then 5 else n)"

text \<open>The text that is parsed again after the rewriting.\<close>

definition transformedRegexOf :: "string \<Rightarrow> string option \<Rightarrow> string" where
  "transformedRegexOf transformedPattern fl =
     (case fl of
        None \<Rightarrow> ''/'' @ transformedPattern @ ''/''
      | Some f \<Rightarrow>
          if f = [] then ''/'' @ transformedPattern @ ''/''
          else ''/'' @ transformedPattern @ ''/'' @ f)"

text \<open>\<open>None\<close> is the error that \<^verbatim>\<open>parseRegex\<close> throws on the input.\<close>

definition regexToStringMinMax ::
  "LiteralParser \<Rightarrow> RegexInput \<Rightarrow> nat \<Rightarrow> nat \<Rightarrow> MinMaxOptions \<Rightarrow> RegexTransformResult option" where
  "regexToStringMinMax lit regex minLength maxLength options =
     (case parseRegex lit regex of
        None \<Rightarrow> None
      | Some parsed \<Rightarrow>
          (let currentEstimate = estimate (pattern parsed)
           in if min_est currentEstimate > maxLength
              then Some
                \<lparr>transformed = inputToString regex,
                 actualMinLength = min_est currentEstimate,
                 actualMaxLength = max_est currentEstimate,
                 isExact = False,
                 candidates =
                   (if generateCandidates options = Some True
                    then Some (generate lit regex
                                 (min_est currentEstimate)
                                 (min_est currentEstimate + 10)
                                 (countOrDefault (candidateCount options)))
                    else None),
                 warning =
                   Some (''Cannot meet maxLength='' @ showNat maxLength
                         @ ''. Structural minimum is '' @ showNat (min_est currentEstimate))\<rparr>
              else
                (let src = inputSource regex;
                     fl = inputFlags regex
                 in case mmTransform lit minLength (enat maxLength) (preferLazy options) src fl of
                      None \<Rightarrow> None
                    | Some transformedPattern \<Rightarrow>
                        (let finalEstimate =
                               (case parseRegex lit
                                       (RegexString (transformedRegexOf transformedPattern fl)) of
                                  Some reparsed \<Rightarrow> estimate (pattern reparsed)
                                | None \<Rightarrow> \<lparr>min_est = minLength, max_est = Some maxLength\<rparr>);
                             cands =
                               (if generateCandidates options = Some True
                                then Some (generate lit regex minLength maxLength
                                             (countOrDefault (candidateCount options)))
                                else None)
                         in Some
                              \<lparr>transformed = transformedPattern,
                               actualMinLength = min_est finalEstimate,
                               actualMaxLength = max_est finalEstimate,
                               isExact =
                                 (min_est finalEstimate \<ge> minLength \<and>
                                  (max_est finalEstimate = None \<or>
                                   the (max_est finalEstimate) \<le> maxLength)),
                               candidates = cands,
                               warning =
                                 (if min_est finalEstimate > maxLength
                                  then Some (''Constraints are too strict. Actual min: ''
                                             @ showNat (min_est finalEstimate))
                                  else None)\<rparr>))))"



section \<open>Notions used to state the properties\<close>




text \<open>A tree contains a Repetition node, anywhere (inside assertions too).\<close>

fun containsQuantifier :: "Element \<Rightarrow> bool" where
  "containsQuantifier (Quantifier s qmn qmx g e) = True"
| "containsQuantifier (Group alts) = list_ex (list_ex containsQuantifier) alts"
| "containsQuantifier (CapturingGroup name alts) = list_ex (list_ex containsQuantifier) alts"
| "containsQuantifier (Assertion kind negate alts) = list_ex (list_ex containsQuantifier) alts"
| "containsQuantifier (Character c) = False"
| "containsQuantifier (CharacterClass negate elems) = False"
| "containsQuantifier (CharacterSet kind negate) = False"
| "containsQuantifier (Backreference r) = False"
| "containsQuantifier OtherElement = False"

definition patternContainsQuantifier :: "Pattern \<Rightarrow> bool" where
  "patternContainsQuantifier p = list_ex (list_ex containsQuantifier) (alternatives p)"

text \<open>
  The answers of the literal parser on the literals that one run consults, as a table: a
  concrete stand-in for the library where a run is evaluated.
\<close>

definition tableParser :: "(string \<times> RegExpLiteral) list \<Rightarrow> LiteralParser" where
  "tableParser table = map_of table"

text \<open>The tree of \<^verbatim>\<open>/[a-z]{20}/\<close>.\<close>

definition lowercase20 :: Pattern where
  "lowercase20 =
     Pattern [[Quantifier 0 20 (enat 20) True (CharacterClass False [ClassRange CHR ''a'' CHR ''z''])]]"

definition lowercase20Parser :: LiteralParser where
  "lowercase20Parser =
     tableParser [(''/[a-z]{20}/'', \<lparr>lit_pattern = lowercase20, lit_flags = []\<rparr>)]"

text \<open>The tree of \<^verbatim>\<open>/ab|c/\<close>, which has no quantifier.\<close>

definition abOrC :: Pattern where
  "abOrC = Pattern [[Character CHR ''a'', Character CHR ''b''], [Character CHR ''c'']]"

definition abOrCParser :: LiteralParser where
  "abOrCParser = tableParser [(''/ab|c/'', \<lparr>lit_pattern = abOrC, lit_flags = []\<rparr>)]"


text \<open>
  The source of a RegExp object never starts with a slash: as a literal it would begin a
  comment, and the constructor escapes the slash.
\<close>

definition wellFormedInput :: "RegexInput \<Rightarrow> bool" where
  "wellFormedInput regex =
     (case regex of RegExpObject src fl \<Rightarrow> \<not> startsWithSlash src | RegexString s \<Rightarrow> True)"

text \<open>Options with every field absent.\<close>

definition noOptions :: MinMaxOptions where
  "noOptions = \<lparr>preferLazy = None, generateCandidates = None, candidateCount = None\<rparr>"

text \<open>
  The tree of \<^verbatim>\<open>/\/a+/\<close>. The table has no entry for \<^verbatim>\<open>/a{5}\<close>, \<^verbatim>\<open>/a{7}\<close>,
  \<^verbatim>\<open>/a{10}\<close> (texts that start with a slash are handed to the literal parser as they
  are, and these have no closing slash) nor for \<^verbatim>\<open>//a{1,10}/\<close> (a literal with an empty
  body): the library rejects them.
\<close>

definition slashThenPlus :: Pattern where
  "slashThenPlus = Pattern [[Character CHR ''/'', Quantifier 2 1 \<infinity> True (Character CHR ''a'')]]"

definition slashThenPlusParser :: LiteralParser where
  "slashThenPlusParser =
     tableParser [([CHR ''/'', bs, CHR ''/'', CHR ''a'', CHR ''+'', CHR ''/''],
                   \<lparr>lit_pattern = slashThenPlus, lit_flags = []\<rparr>)]"

text \<open>The tree of \<^verbatim>\<open>/(a)\1/\<close>.\<close>

definition groupThenBackreference :: Pattern where
  "groupThenBackreference =
     Pattern [[CapturingGroup None [[Character CHR ''a'']], Backreference (RefNumber 1)]]"

definition groupThenBackreferenceParser :: LiteralParser where
  "groupThenBackreferenceParser =
     tableParser [(''/(a)'' @ [bs] @ ''1/'',
                   \<lparr>lit_pattern = groupThenBackreference, lit_flags = []\<rparr>)]"

text \<open>
  The trees of \<^verbatim>\<open>/^[0-9]+$/\<close> and of the same pattern with other counts, and the table
  for the literals that the runs on \<^verbatim>\<open>/^[0-9]+$/\<close> with the ranges from 5 to 10 and
  from 9 to 9 consult.
\<close>

definition digitsBetweenAnchors :: "nat \<Rightarrow> enat \<Rightarrow> Pattern" where
  "digitsBetweenAnchors mn mx =
     Pattern [[Assertion StartKind False [],
               Quantifier 1 mn mx True (CharacterClass False [ClassRange CHR ''0'' CHR ''9'']),
               Assertion EndKind False []]]"

definition digitsParser :: LiteralParser where
  "digitsParser =
     tableParser
       [(''/^[0-9]+$/'', \<lparr>lit_pattern = digitsBetweenAnchors 1 \<infinity>, lit_flags = []\<rparr>),
        (''/^[0-9]{5}$/'', \<lparr>lit_pattern = digitsBetweenAnchors 5 (enat 5), lit_flags = []\<rparr>),
        (''/^[0-9]{7}$/'', \<lparr>lit_pattern = digitsBetweenAnchors 7 (enat 7), lit_flags = []\<rparr>),
        (''/^[0-9]{10}$/'', \<lparr>lit_pattern = digitsBetweenAnchors 10 (enat 10), lit_flags = []\<rparr>),
        (''/^[0-9]{1,10}$/'', \<lparr>lit_pattern = digitsBetweenAnchors 1 (enat 10), lit_flags = []\<rparr>),
        (''/^[0-9]{9}$/'', \<lparr>lit_pattern = digitsBetweenAnchors 9 (enat 9), lit_flags = []\<rparr>),
        (''/^[0-9]{1,9}$/'', \<lparr>lit_pattern = digitsBetweenAnchors 1 (enat 9), lit_flags = []\<rparr>)]"



text \<open>The trees of \<^verbatim>\<open>/\D/\<close> and \<^verbatim>\<open>/\d/\<close>.\<close>

definition nonDigit :: Pattern where
  "nonDigit = Pattern [[CharacterSet DigitKind True]]"

definition digit :: Pattern where
  "digit = Pattern [[CharacterSet DigitKind False]]"

definition nonDigitParser :: LiteralParser where
  "nonDigitParser =
     tableParser [([CHR ''/'', bs, CHR ''D'', CHR ''/''], \<lparr>lit_pattern = nonDigit, lit_flags = []\<rparr>),
                  ([CHR ''/'', bs, CHR ''d'', CHR ''/''], \<lparr>lit_pattern = digit, lit_flags = []\<rparr>)]"


section \<open>Properties of the length estimator\<close>

subsection \<open>The two loops in closed form\<close>





lemma foldl_alternativesStep_min:
  "fst (foldl alternativesStep (a, b) rs) =
     (if rs = [] then a else min a (enat (Min (min_est ` set rs))))"
proof (induction rs arbitrary: a b)
  case Nil
  then show ?case by simp
next
  case (Cons r rs)
  show ?case
  proof (cases "rs = []")
    case True
    then show ?thesis by (simp add: alternativesStep_def)
  next
    case False
    have step: "alternativesStep (a, b) r = (min a (enat (min_est r)), snd (alternativesStep (a, b) r))"
      by (simp add: alternativesStep_def)
    have "fst (foldl alternativesStep (a, b) (r # rs))
            = fst (foldl alternativesStep (min a (enat (min_est r)), snd (alternativesStep (a, b) r)) rs)"
      using step by simp
    also have "\<dots> = min (min a (enat (min_est r))) (enat (Min (min_est ` set rs)))"
      using Cons.IH False by simp
    also have "\<dots> = min a (enat (min (min_est r) (Min (min_est ` set rs))))"
      by (simp add: min.assoc)
    also have "min (min_est r) (Min (min_est ` set rs)) = Min (min_est ` set (r # rs))"
      using False by simp
    finally show ?thesis by simp
  qed
qed

lemma foldl_alternativesStep_max:
  "snd (foldl alternativesStep (a, b) rs) =
     (if rs = [] then b
      else (case b of
              None \<Rightarrow> None
            | Some t \<Rightarrow>
                if \<exists>r \<in> set rs. max_est r = None then None
                else Some (max t (Max ((\<lambda>r. the (max_est r)) ` set rs)))))"
proof (induction rs arbitrary: a b)
  case Nil
  then show ?case by simp
next
  case (Cons r rs)
  show ?case
  proof (cases "rs = []")
    case True
    then show ?thesis by (auto simp: alternativesStep_def split: option.splits)
  next
    case False
    then have "Max (insert (the (max_est r)) ((\<lambda>r. the (max_est r)) ` set rs))
                 = max (the (max_est r)) (Max ((\<lambda>r. the (max_est r)) ` set rs))"
      by simp
    then show ?thesis
      using Cons.IH False
      by (auto simp: alternativesStep_def max.assoc split: option.splits)
  qed
qed

lemma min_est_alternativesBound:
  "rs \<noteq> [] \<Longrightarrow> min_est (alternativesBound rs) = Min (min_est ` set rs)"
  using foldl_alternativesStep_min [of \<infinity> "Some 0" rs]
  by (simp add: alternativesBound_def case_prod_beta)

lemma max_est_alternativesBound:
  "rs \<noteq> [] \<Longrightarrow> max_est (alternativesBound rs) =
     (if \<exists>r \<in> set rs. max_est r = None then None
      else Some (Max ((\<lambda>r. the (max_est r)) ` set rs)))"
  using foldl_alternativesStep_max [of \<infinity> "Some 0" rs]
  by (simp add: alternativesBound_def case_prod_beta)

lemma visitNode_Group:
  "alts \<noteq> [] \<Longrightarrow> visitNode (Group alts) = visitAlternatives alts"
  by (simp add: visitAlternatives_def visitSequence_def [abs_def])

lemma visitNode_CapturingGroup:
  "alts \<noteq> [] \<Longrightarrow> visitNode (CapturingGroup name alts) = visitAlternatives alts"
  by (simp add: visitAlternatives_def visitSequence_def [abs_def])

subsection \<open>Alternation\<close>

text \<open>
  Claim C6. For an alternation with at least one branch (a pattern, a group or a capturing
  group), the estimated minimum is the least of the minima of the branches, and the
  estimated maximum is unbounded if the maximum of some branch is unbounded and the
  greatest of the maxima of the branches otherwise.
\<close>

theorem alternation_envelope:
  assumes "alts \<noteq> []"
  shows "min_est (visitAlternatives alts) = Min (set (map (\<lambda>alt. min_est (visitSequence alt)) alts))
       \<and> max_est (visitAlternatives alts) =
           (if \<exists>alt \<in> set alts. max_est (visitSequence alt) = None then None
            else Some (Max (set (map (\<lambda>alt. the (max_est (visitSequence alt))) alts))))
       \<and> estimate (Pattern alts) = visitAlternatives alts
       \<and> visitNode (Group alts) = visitAlternatives alts
       \<and> visitNode (CapturingGroup name alts) = visitAlternatives alts"
proof -
  have ne: "map visitSequence alts \<noteq> []" using assms by simp
  have "min_est (visitAlternatives alts) = Min (set (map (\<lambda>alt. min_est (visitSequence alt)) alts))"
    unfolding visitAlternatives_def min_est_alternativesBound [OF ne]
    by (simp add: image_image)
  moreover have "max_est (visitAlternatives alts) =
           (if \<exists>alt \<in> set alts. max_est (visitSequence alt) = None then None
            else Some (Max (set (map (\<lambda>alt. the (max_est (visitSequence alt))) alts))))"
    unfolding visitAlternatives_def max_est_alternativesBound [OF ne]
    by (simp add: image_image)
  ultimately show ?thesis
    using visitNode_Group [OF assms] visitNode_CapturingGroup [OF assms]
    by (simp add: estimate_def del: visitNode.simps)
qed

theorem alternation_envelope_witness:
  "[[Character CHR ''a''], [Character CHR ''b'', Quantifier 1 0 \<infinity> True (Character CHR ''c'')]] \<noteq> []
   \<and> min_est (visitAlternatives [[Character CHR ''a''], [Character CHR ''b'', Quantifier 1 0 \<infinity> True (Character CHR ''c'')]]) = 1
   \<and> max_est (visitAlternatives [[Character CHR ''a''], [Character CHR ''b'', Quantifier 1 0 \<infinity> True (Character CHR ''c'')]]) = None"
proof -
  have ne: "[[Character CHR ''a''], [Character CHR ''b'', Quantifier 1 0 \<infinity> True (Character CHR ''c'')]] \<noteq> []"
    by simp
  show ?thesis
    using alternation_envelope [OF ne]
    by (simp add: visitSequence_def sequenceBound_def sequenceStep_def)
qed

subsection \<open>Repetition\<close>



subsection \<open>The invariant of the bound\<close>








lemma estimate_lowercase20:
  "estimate lowercase20 = \<lparr>min_est = 20, max_est = Some 20\<rparr>"
  by (simp add: lowercase20_def estimate_def visitAlternatives_def visitSequence_def
      alternativesBound_def alternativesStep_def sequenceBound_def sequenceStep_def)

lemma parse_lowercase20:
  "parseRegex lowercase20Parser (RegExpObject ''[a-z]{20}'' []) =
     Some \<lparr>pattern = lowercase20, flags = [], source = ''[a-z]{20}''\<rparr>"
  by (simp add: parseRegex_def literalSource_def sourceText_def lowercase20Parser_def
      tableParser_def)



section \<open>Properties of the candidate generator\<close>

lemma visitor_empty:
  "\<not> containsQuantifier e \<Longrightarrow> visitor e = []"
  by (induction e rule: visitor.induct) (auto simp: list_ex_iff)

lemma findQuantifiers_empty:
  "\<not> patternContainsQuantifier p \<Longrightarrow> findQuantifiers p = []"
  by (auto simp: patternContainsQuantifier_def findQuantifiers_def list_ex_iff visitor_empty)

lemma generate_no_quantifiers:
  assumes "parseRegex lit regex = Some parsed"
    and "findQuantifiers (pattern parsed) = []"
  shows "generate lit regex minLength maxLength count =
           [\<lparr>cand_regex = source parsed,
             cand_minLength = min_est (estimate (pattern parsed)),
             cand_maxLength = max_est (estimate (pattern parsed))\<rparr>]"
  using assms by (simp add: generate_def newGenerator_def Let_def)

text \<open>
  Claim C5. For a parsed pattern that contains no Repetition node, the generator returns
  exactly one candidate: its text is the source of the input, unchanged, and its bound is
  the estimate of the untouched pattern.
\<close>

theorem no_quantifier_round_trip:
  assumes "parseRegex lit regex = Some parsed"
    and "\<not> patternContainsQuantifier (pattern parsed)"
  shows "generate lit regex minLength maxLength count =
           [\<lparr>cand_regex = sourceText regex,
             cand_minLength = min_est (estimate (pattern parsed)),
             cand_maxLength = max_est (estimate (pattern parsed))\<rparr>]"
proof -
  have "source parsed = sourceText regex"
    using assms(1) by (auto simp: parseRegex_def split: option.splits)
  then show ?thesis
    using assms generate_no_quantifiers findQuantifiers_empty by simp
qed

theorem no_quantifier_round_trip_witness:
  "parseRegex abOrCParser (RegExpObject ''ab|c'' []) =
     Some \<lparr>pattern = abOrC, flags = [], source = ''ab|c''\<rparr>
   \<and> \<not> patternContainsQuantifier abOrC
   \<and> generate abOrCParser (RegExpObject ''ab|c'' []) 0 10 5 =
       [\<lparr>cand_regex = ''ab|c'', cand_minLength = 1, cand_maxLength = Some 2\<rparr>]"
proof -
  have h1: "parseRegex abOrCParser (RegExpObject ''ab|c'' []) =
     Some \<lparr>pattern = abOrC, flags = [], source = ''ab|c''\<rparr>"
    by (simp add: parseRegex_def literalSource_def sourceText_def abOrCParser_def
        tableParser_def)
  have h2: "\<not> patternContainsQuantifier (pattern \<lparr>pattern = abOrC, flags = [], source = ''ab|c''\<rparr>)"
    by (simp add: patternContainsQuantifier_def abOrC_def)
  have est: "estimate abOrC = \<lparr>min_est = 1, max_est = Some 2\<rparr>"
    by (simp add: abOrC_def estimate_def visitAlternatives_def visitSequence_def
        alternativesBound_def alternativesStep_def sequenceBound_def sequenceStep_def)
  show ?thesis
    using h1 h2 no_quantifier_round_trip [OF h1 h2, of 0 10 5]
    by (simp add: est sourceText_def)
qed


section \<open>Properties of the bounding operation\<close>

subsection \<open>Infeasible requests\<close>

lemma showNat_nonempty: "showNat n \<noteq> []"
  by (subst showNat.simps) simp

lemma infeasible_result:
  assumes "parseRegex lit regex = Some parsed"
    and "min_est (estimate (pattern parsed)) > maxLength"
  shows "regexToStringMinMax lit regex minLength maxLength options =
           Some \<lparr>transformed = inputToString regex,
                 actualMinLength = min_est (estimate (pattern parsed)),
                 actualMaxLength = max_est (estimate (pattern parsed)),
                 isExact = False,
                 candidates =
                   (if generateCandidates options = Some True
                    then Some (generate lit regex
                                 (min_est (estimate (pattern parsed)))
                                 (min_est (estimate (pattern parsed)) + 10)
                                 (countOrDefault (candidateCount options)))
                    else None),
                 warning =
                   Some (''Cannot meet maxLength='' @ showNat maxLength
                         @ ''. Structural minimum is ''
                         @ showNat (min_est (estimate (pattern parsed))))\<rparr>"
  using assms by (simp add: regexToStringMinMax_def Let_def)

text \<open>
  Claim C3. When the structural minimum of the parsed pattern exceeds the requested
  \<open>maxLength\<close>, the operation returns a result with a non-empty warning and
  \<open>isExact = false\<close>, and, when candidates were asked for, the candidates generated for
  the window from the structural minimum to the structural minimum plus ten. The witness
  is the call on \<^verbatim>\<open>/[a-z]{20}/\<close> with the range from 5 to 10.
\<close>

theorem infeasible_request_is_flagged:
  assumes "parseRegex lit regex = Some parsed"
    and "min_est (estimate (pattern parsed)) > maxLength"
  shows "\<exists>r w. regexToStringMinMax lit regex minLength maxLength options = Some r
           \<and> warning r = Some w \<and> w \<noteq> []
           \<and> \<not> isExact r
           \<and> candidates r =
               (if generateCandidates options = Some True
                then Some (generate lit regex
                             (min_est (estimate (pattern parsed)))
                             (min_est (estimate (pattern parsed)) + 10)
                             (countOrDefault (candidateCount options)))
                else None)"
  using infeasible_result [OF assms] by simp

theorem infeasible_request_is_flagged_witness:
  "parseRegex lowercase20Parser (RegExpObject ''[a-z]{20}'' []) =
     Some \<lparr>pattern = lowercase20, flags = [], source = ''[a-z]{20}''\<rparr>
   \<and> min_est (estimate lowercase20) > 10
   \<and> (\<exists>r w. regexToStringMinMax lowercase20Parser (RegExpObject ''[a-z]{20}'' []) 5 10
                \<lparr>preferLazy = None, generateCandidates = Some True, candidateCount = None\<rparr> = Some r
           \<and> warning r = Some w \<and> w \<noteq> []
           \<and> \<not> isExact r
           \<and> candidates r = Some (generate lowercase20Parser (RegExpObject ''[a-z]{20}'' []) 20 30 5))"
proof -
  have h1: "parseRegex lowercase20Parser (RegExpObject ''[a-z]{20}'' []) =
     Some \<lparr>pattern = lowercase20, flags = [], source = ''[a-z]{20}''\<rparr>"
    by (rule parse_lowercase20)
  have h2: "min_est (estimate (pattern \<lparr>pattern = lowercase20, flags = [], source = ''[a-z]{20}''\<rparr>)) > 10"
    by (simp add: estimate_lowercase20)
  show ?thesis
    using h1 h2 infeasible_request_is_flagged [OF h1 h2, of 5
        "\<lparr>preferLazy = None, generateCandidates = Some True, candidateCount = None\<rparr>"]
    by (simp add: estimate_lowercase20 countOrDefault_def)
qed



section \<open>Evaluating concrete runs\<close>

lemma showNat_0: "showNat 0 = ''0''"
  by (subst showNat.simps) (simp add: digitChar_def)

lemma showNat_1: "showNat 1 = ''1''"
  by (subst showNat.simps) (simp add: digitChar_def)

lemma showNat_Suc_0: "showNat (Suc 0) = ''1''"
  using showNat_1 by simp

lemma showNat_numeral:
  "showNat (numeral k) =
     (if (numeral k :: nat) < 10 then [digitChar (numeral k)]
      else showNat (numeral k div 10) @ [digitChar (numeral k mod 10)])"
  by (subst showNat.simps) simp

lemmas eval_defs =
  parseRegex_def literalSource_def sourceText_def tableParser_def startsWithSlash_def
  sliceFrom1_def lastIndexOfSlash_def
  estimate_def visitAlternatives_def visitSequence_def
  alternativesBound_def alternativesStep_def sequenceBound_def sequenceStep_def
  generate_def newGenerator_def findQuantifiers_def generateQuantifierConfigurations_def
  isGrowable_def targetValues_def setAll_def targetEntry_def fallbackEntry_def unchangedEntry_def
  elemLengthOf_def applyQuantifierConfiguration_def cfgTransform_def cfgTransformAlternatives_def
  cfgTransformAlternative_def joinAlternatives_def transformAssertion_def
  transformCharacterClass_def classStep_def escapeChar_def buildQuantifier_def
  showNat_numeral showNat_Suc_0 showNat_0 digitChar_def Let_def

lemmas mm_eval_defs =
  mmTransformPattern_def mmTransformAlternatives_def mmTransformAlternative_def
  joinAlternatives_def transformAssertion_def transformCharacterClass_def classStep_def
  transformCharacterSet_def transformCapturingGroup_def transformGroup_def
  transformBackreference_def escapeChar_def buildQuantifier_def
  showNat_numeral showNat_Suc_0 showNat_0 digitChar_def Let_def

lemma parse_digits:
  "parseRegex digitsParser (RegExpObject ''^[0-9]+$'' []) =
     Some \<lparr>pattern = digitsBetweenAnchors 1 \<infinity>, flags = [], source = ''^[0-9]+$''\<rparr>"
  by (simp add: parseRegex_def literalSource_def sourceText_def digitsParser_def tableParser_def)

lemma estimate_digits:
  "estimate (digitsBetweenAnchors mn (enat k)) = \<lparr>min_est = mn, max_est = Some k\<rparr>"
  "estimate (digitsBetweenAnchors mn \<infinity>) = \<lparr>min_est = mn, max_est = None\<rparr>"
  by (simp_all add: digitsBetweenAnchors_def estimate_def visitAlternatives_def visitSequence_def
      alternativesBound_def alternativesStep_def sequenceBound_def sequenceStep_def)

lemma reparse_digits:
  "parseRegex digitsParser (RegexString ''/^[0-9]{1,10}$/'') =
     Some \<lparr>pattern = digitsBetweenAnchors 1 (enat 10), flags = [], source = ''^[0-9]{1,10}$''\<rparr>"
  by (simp add: parseRegex_def literalSource_def sourceText_def digitsParser_def tableParser_def
      startsWithSlash_def sliceFrom1_def lastIndexOfSlash_def)

text \<open>
  Two tests of the repository (\<^verbatim>\<open>regexToStringMinMax - generates candidates\<close> and
  \<^verbatim>\<open>regexToStringMinMax - exact length\<close>): three candidates with a minimum between 5 and
  10, and one candidate of length exactly 9.
\<close>

lemma test_generates_candidates:
  "regexToStringMinMax digitsParser (RegExpObject ''^[0-9]+$'' []) 5 10
     \<lparr>preferLazy = None, generateCandidates = Some True, candidateCount = Some 3\<rparr> =
     Some \<lparr>transformed = ''^[0-9]{1,10}$'',
           actualMinLength = 1,
           actualMaxLength = Some 10,
           isExact = False,
           candidates =
             Some [\<lparr>cand_regex = ''^[0-9]{5}$'', cand_minLength = 5, cand_maxLength = Some 5\<rparr>,
                   \<lparr>cand_regex = ''^[0-9]{7}$'', cand_minLength = 7, cand_maxLength = Some 7\<rparr>,
                   \<lparr>cand_regex = ''^[0-9]{10}$'', cand_minLength = 10, cand_maxLength = Some 10\<rparr>],
           warning = None\<rparr>"
  by (simp add: regexToStringMinMax_def mmTransform_def transformedRegexOf_def inputFlags_def
      inputSource_def countOrDefault_def digitsParser_def digitsBetweenAnchors_def
      eval_defs mm_eval_defs)

lemma test_exact_length:
  "regexToStringMinMax digitsParser (RegExpObject ''^[0-9]+$'' []) 9 9
     \<lparr>preferLazy = None, generateCandidates = Some True, candidateCount = Some 1\<rparr> =
     Some \<lparr>transformed = ''^[0-9]{1,9}$'',
           actualMinLength = 1,
           actualMaxLength = Some 9,
           isExact = False,
           candidates =
             Some [\<lparr>cand_regex = ''^[0-9]{9}$'', cand_minLength = 9, cand_maxLength = Some 9\<rparr>],
           warning = None\<rparr>"
  by (simp add: regexToStringMinMax_def mmTransform_def transformedRegexOf_def inputFlags_def
      inputSource_def countOrDefault_def digitsParser_def digitsBetweenAnchors_def
      eval_defs mm_eval_defs)

lemma parse_slashThenPlus:
  "parseRegex slashThenPlusParser (RegExpObject [bs, CHR ''/'', CHR ''a'', CHR ''+''] []) =
     Some \<lparr>pattern = slashThenPlus, flags = [], source = [bs, CHR ''/'', CHR ''a'', CHR ''+'']\<rparr>"
  by (simp add: parseRegex_def literalSource_def sourceText_def slashThenPlusParser_def
      tableParser_def)

lemma estimate_slashThenPlus:
  "estimate slashThenPlus = \<lparr>min_est = 2, max_est = None\<rparr>"
  by (simp add: slashThenPlus_def estimate_def visitAlternatives_def visitSequence_def
      alternativesBound_def alternativesStep_def sequenceBound_def sequenceStep_def)

lemma reparse_slashThenPlus:
  "parseRegex slashThenPlusParser (RegexString ''//a{1,10}/'') = None"
  by (simp add: parseRegex_def literalSource_def slashThenPlusParser_def tableParser_def
      startsWithSlash_def)





lemma estimate_groupThenBackreference:
  "estimate groupThenBackreference = \<lparr>min_est = 1, max_est = None\<rparr>"
  by (simp add: groupThenBackreference_def estimate_def visitAlternatives_def visitSequence_def
      alternativesBound_def alternativesStep_def sequenceBound_def sequenceStep_def)

lemma transform_groupThenBackreference:
  "mmTransformPattern 0 (enat 10) None groupThenBackreference = ''(a)'' @ [bs] @ ''1''"
  by (simp add: groupThenBackreference_def mmTransformPattern_def mmTransformAlternatives_def
      mmTransformAlternative_def joinAlternatives_def transformCapturingGroup_def escapeChar_def
      transformBackreference_def showNat_Suc_0)

lemma parse_groupThenBackreference:
  "parseRegex groupThenBackreferenceParser (RegExpObject (''(a)'' @ [bs] @ ''1'') []) =
     Some \<lparr>pattern = groupThenBackreference, flags = [], source = ''(a)'' @ [bs] @ ''1''\<rparr>"
  by (simp add: parseRegex_def literalSource_def sourceText_def groupThenBackreferenceParser_def
      tableParser_def)

lemma reparse_groupThenBackreference:
  "parseRegex groupThenBackreferenceParser (RegexString (''/(a)'' @ [bs] @ ''1/'')) =
     Some \<lparr>pattern = groupThenBackreference, flags = [], source = ''(a)'' @ [bs] @ ''1''\<rparr>"
  by (simp add: parseRegex_def literalSource_def sourceText_def groupThenBackreferenceParser_def
      tableParser_def startsWithSlash_def sliceFrom1_def lastIndexOfSlash_def)


section \<open>The candidates and the texts that parse again\<close>










section \<open>Properties of the feasible branch\<close>

lemma literalSource_transform_input:
  assumes "wellFormedInput regex"
  shows "literalSource
           (RegexString (case inputFlags regex of
                           None \<Rightarrow> inputSource regex
                         | Some f \<Rightarrow> if f = [] then inputSource regex
                                     else ''/'' @ inputSource regex @ ''/'' @ f))
         = literalSource regex"
  using assms
  by (cases regex)
     (auto simp: wellFormedInput_def literalSource_def inputFlags_def inputSource_def
        startsWithSlash_def)

lemma mmTransform_of_parsed:
  assumes "wellFormedInput regex"
    and "parseRegex lit regex = Some parsed"
  shows "mmTransform lit minTarget maxTarget lazyPref (inputSource regex) (inputFlags regex)
           = Some (mmTransformPattern minTarget maxTarget lazyPref (pattern parsed))"
proof -
  obtain ast where ast: "lit (literalSource regex) = Some ast" and p: "pattern parsed = lit_pattern ast"
    using assms(2) by (auto simp: parseRegex_def split: option.splits)
  show ?thesis
    unfolding mmTransform_def parseRegex_def literalSource_transform_input [OF assms(1)]
    using ast p by simp
qed

lemma feasible_result:
  assumes "wellFormedInput regex"
    and "parseRegex lit regex = Some parsed"
    and "min_est (estimate (pattern parsed)) \<le> maxLength"
  shows "regexToStringMinMax lit regex minLength maxLength options =
     (let transformedPattern =
            mmTransformPattern minLength (enat maxLength) (preferLazy options) (pattern parsed);
          finalEstimate =
            (case parseRegex lit
                    (RegexString (transformedRegexOf transformedPattern (inputFlags regex))) of
               Some reparsed \<Rightarrow> estimate (pattern reparsed)
             | None \<Rightarrow> \<lparr>min_est = minLength, max_est = Some maxLength\<rparr>)
      in Some
           \<lparr>transformed = transformedPattern,
            actualMinLength = min_est finalEstimate,
            actualMaxLength = max_est finalEstimate,
            isExact =
              (min_est finalEstimate \<ge> minLength \<and>
               (max_est finalEstimate = None \<or> the (max_est finalEstimate) \<le> maxLength)),
            candidates =
              (if generateCandidates options = Some True
               then Some (generate lit regex minLength maxLength
                            (countOrDefault (candidateCount options)))
               else None),
            warning =
              (if min_est finalEstimate > maxLength
               then Some (''Constraints are too strict. Actual min: ''
                          @ showNat (min_est finalEstimate))
               else None)\<rparr>)"
  using assms(2,3) mmTransform_of_parsed [OF assms(1,2)]
  by (simp add: regexToStringMinMax_def Let_def)

text \<open>
  Claim C1, as the program has it. For a pattern whose structural minimum does not exceed
  \<open>maxLength\<close> and whose rewritten text parses again, \<open>isExact\<close> holds if and only if the
  re-estimated minimum is at least \<open>minLength\<close> and the re-estimated maximum is either
  unbounded or at most \<open>maxLength\<close>.
\<close>

theorem isExact_iff_reestimate:
  assumes "wellFormedInput regex"
    and "parseRegex lit regex = Some parsed"
    and "min_est (estimate (pattern parsed)) \<le> maxLength"
    and "parseRegex lit
           (RegexString
              (transformedRegexOf
                 (mmTransformPattern minLength (enat maxLength) (preferLazy options) (pattern parsed))
                 (inputFlags regex))) = Some reparsed"
  shows "\<exists>r. regexToStringMinMax lit regex minLength maxLength options = Some r
           \<and> actualMinLength r = min_est (estimate (pattern reparsed))
           \<and> actualMaxLength r = max_est (estimate (pattern reparsed))
           \<and> (isExact r \<longleftrightarrow>
                 min_est (estimate (pattern reparsed)) \<ge> minLength
                 \<and> (case max_est (estimate (pattern reparsed)) of
                       None \<Rightarrow> True
                     | Some m \<Rightarrow> m \<le> maxLength))"
  using feasible_result [OF assms(1,2,3)] assms(4)
  by (auto simp: Let_def split: option.splits)

theorem isExact_iff_reestimate_witness:
  "wellFormedInput (RegExpObject ''^[0-9]+$'' [])
   \<and> parseRegex digitsParser (RegExpObject ''^[0-9]+$'' []) =
       Some \<lparr>pattern = digitsBetweenAnchors 1 \<infinity>, flags = [], source = ''^[0-9]+$''\<rparr>
   \<and> min_est (estimate (digitsBetweenAnchors 1 \<infinity>)) \<le> 10
   \<and> parseRegex digitsParser (RegexString ''/^[0-9]{1,10}$/'') =
       Some \<lparr>pattern = digitsBetweenAnchors 1 (enat 10), flags = [], source = ''^[0-9]{1,10}$''\<rparr>
   \<and> (\<exists>r. regexToStringMinMax digitsParser (RegExpObject ''^[0-9]+$'' []) 5 10 noOptions = Some r
          \<and> actualMinLength r = 1 \<and> actualMaxLength r = Some 10 \<and> \<not> isExact r)"
proof -
  let ?parsed = "\<lparr>pattern = digitsBetweenAnchors 1 \<infinity>, flags = [], source = ''^[0-9]+$''\<rparr>"
  let ?reparsed =
    "\<lparr>pattern = digitsBetweenAnchors 1 (enat 10), flags = [], source = ''^[0-9]{1,10}$''\<rparr>"
  have h1: "wellFormedInput (RegExpObject ''^[0-9]+$'' [])"
    by (simp add: wellFormedInput_def startsWithSlash_def)
  have h3: "min_est (estimate (pattern ?parsed)) \<le> 10"
    by (simp add: estimate_digits)
  have h4: "parseRegex digitsParser
              (RegexString
                 (transformedRegexOf
                    (mmTransformPattern 5 (enat 10) (preferLazy noOptions) (pattern ?parsed))
                    (inputFlags (RegExpObject ''^[0-9]+$'' [])))) = Some ?reparsed"
  proof -
    have "transformedRegexOf
            (mmTransformPattern 5 (enat 10) (preferLazy noOptions) (pattern ?parsed))
            (inputFlags (RegExpObject ''^[0-9]+$'' [])) = ''/^[0-9]{1,10}$/''"
      by (simp add: noOptions_def digitsBetweenAnchors_def mm_eval_defs transformedRegexOf_def
          inputFlags_def)
    then show ?thesis
      using reparse_digits by simp
  qed
  show ?thesis
    using h1 h3 isExact_iff_reestimate [OF h1 parse_digits h3 h4]
    by (simp add: parse_digits reparse_digits estimate_digits)
qed

text \<open>
  The claim as stated asks for a bounded maximum. On \<^verbatim>\<open>/(a)\1/\<close> with the range from 0 to
  10 the structural minimum is 1, the rewritten text is the pattern itself, its
  re-estimated maximum is unbounded because of the backreference, and \<open>isExact\<close> is true.
\<close>

theorem isExact_with_unbounded_maximum:
  "min_est (estimate groupThenBackreference) \<le> 10
   \<and> max_est (estimate groupThenBackreference) = None
   \<and> regexToStringMinMax groupThenBackreferenceParser (RegExpObject (''(a)'' @ [bs] @ ''1'') [])
       0 10 noOptions =
       Some \<lparr>transformed = ''(a)'' @ [bs] @ ''1'',
             actualMinLength = 1,
             actualMaxLength = None,
             isExact = True,
             candidates = None,
             warning = None\<rparr>"
  using feasible_result [of "RegExpObject (''(a)'' @ [bs] @ ''1'') []" groupThenBackreferenceParser
      _ 10 0 noOptions, OF _ parse_groupThenBackreference]
  by (simp add: wellFormedInput_def startsWithSlash_def estimate_groupThenBackreference
      noOptions_def transform_groupThenBackreference transformedRegexOf_def inputFlags_def
      reparse_groupThenBackreference [simplified])

text \<open>
  Claim C10. For a feasible call, when the rewritten text does not parse again, the
  operation still returns a result; it reports the requested lengths as the achieved ones
  and \<open>isExact = true\<close>.
\<close>

theorem reparse_failure_reports_request:
  assumes "wellFormedInput regex"
    and "parseRegex lit regex = Some parsed"
    and "min_est (estimate (pattern parsed)) \<le> maxLength"
    and "parseRegex lit
           (RegexString
              (transformedRegexOf
                 (mmTransformPattern minLength (enat maxLength) (preferLazy options) (pattern parsed))
                 (inputFlags regex))) = None"
  shows "\<exists>r. regexToStringMinMax lit regex minLength maxLength options = Some r
           \<and> actualMinLength r = minLength
           \<and> actualMaxLength r = Some maxLength
           \<and> isExact r"
  using feasible_result [OF assms(1,2,3)] assms(4)
  by (auto simp: Let_def split: option.splits)

text \<open>
  The witness is the run on \<^verbatim>\<open>/\/a+/\<close> with the range from 5 to 10: the rewritten text
  is \<^verbatim>\<open>/a{1,10}\<close>, and \<^verbatim>\<open>//a{1,10}/\<close> does not parse.
\<close>

theorem reparse_failure_reports_request_witness:
  "wellFormedInput (RegExpObject [bs, CHR ''/'', CHR ''a'', CHR ''+''] [])
   \<and> parseRegex slashThenPlusParser (RegExpObject [bs, CHR ''/'', CHR ''a'', CHR ''+''] []) =
       Some \<lparr>pattern = slashThenPlus, flags = [], source = [bs, CHR ''/'', CHR ''a'', CHR ''+'']\<rparr>
   \<and> min_est (estimate slashThenPlus) \<le> 10
   \<and> parseRegex slashThenPlusParser (RegexString ''//a{1,10}/'') = None
   \<and> (\<exists>r. regexToStringMinMax slashThenPlusParser
               (RegExpObject [bs, CHR ''/'', CHR ''a'', CHR ''+''] []) 5 10 noOptions = Some r
          \<and> actualMinLength r = 5 \<and> actualMaxLength r = Some 10 \<and> isExact r)"
proof -
  let ?parsed = "\<lparr>pattern = slashThenPlus, flags = [], source = [bs, CHR ''/'', CHR ''a'', CHR ''+'']\<rparr>"
  have h1: "wellFormedInput (RegExpObject [bs, CHR ''/'', CHR ''a'', CHR ''+''] [])"
    by (simp add: wellFormedInput_def startsWithSlash_def)
  have h3: "min_est (estimate (pattern ?parsed)) \<le> 10"
    by (simp add: estimate_slashThenPlus)
  have h4: "parseRegex slashThenPlusParser
              (RegexString
                 (transformedRegexOf
                    (mmTransformPattern 5 (enat 10) (preferLazy noOptions) (pattern ?parsed))
                    (inputFlags (RegExpObject [bs, CHR ''/'', CHR ''a'', CHR ''+''] [])))) = None"
  proof -
    have "transformedRegexOf
            (mmTransformPattern 5 (enat 10) (preferLazy noOptions) (pattern ?parsed))
            (inputFlags (RegExpObject [bs, CHR ''/'', CHR ''a'', CHR ''+''] [])) = ''//a{1,10}/''"
      by (simp add: noOptions_def slashThenPlus_def mm_eval_defs transformedRegexOf_def
          inputFlags_def)
    then show ?thesis
      using reparse_slashThenPlus by simp
  qed
  show ?thesis
    using h1 h3 reparse_failure_reports_request [OF h1 parse_slashThenPlus h3 h4]
    by (simp add: parse_slashThenPlus reparse_slashThenPlus estimate_slashThenPlus)
qed


section \<open>Properties of the rewriter\<close>





text \<open>
  Claim C2 does not hold of the program. \<^verbatim>\<open>transformCharacterSet\<close> does not read the
  \<open>negate\<close> field of a character set, and \<^verbatim>\<open>transformAssertion\<close> does not read it for a
  word boundary: the call on \<^verbatim>\<open>/\D/\<close> with the range from 0 to 10 returns the text
  \<^verbatim>\<open>\d\<close>, the same text as for \<^verbatim>\<open>/\d/\<close>, and \<^verbatim>\<open>\B\<close> is written as \<^verbatim>\<open>\b\<close>.
\<close>

theorem negated_set_is_rewritten_as_plain_set:
  "regexToStringMinMax nonDigitParser (RegExpObject [bs, CHR ''D''] []) 0 10 noOptions =
     Some \<lparr>transformed = [bs, CHR ''d''],
           actualMinLength = 1,
           actualMaxLength = Some 1,
           isExact = True,
           candidates = None,
           warning = None\<rparr>
   \<and> mmTransformElement 0 (enat 10) None (CharacterSet DigitKind True) = [bs, CHR ''d'']
   \<and> mmTransformElement 0 (enat 10) None (CharacterSet DigitKind False) = [bs, CHR ''d'']
   \<and> mmTransformElement 0 (enat 10) None (Assertion WordBoundaryKind True []) = [bs, CHR ''b'']
   \<and> cfgTransformElement Map.empty (CharacterSet DigitKind True) = [bs, CHR ''d'']"
  by (simp add: regexToStringMinMax_def mmTransform_def mmTransformPattern_def
      mmTransformAlternatives_def mmTransformAlternative_def transformCharacterSet_def
      transformedRegexOf_def inputFlags_def inputSource_def noOptions_def nonDigitParser_def
      nonDigit_def digit_def eval_defs)

end
